theory Spec2Isabelle
  imports Main
begin

section \<open>Tensors\<close>

text \<open>
  The module \<^verbatim>\<open>mlagents/trainers/torch/action_model.py\<close> works on torch tensors. A
  tensor is modelled by its shape and its elements in row-major order; a well-formed
  tensor has \<open>length (elems t) = prod_list (shape t)\<close>. The element type stays a
  parameter: no property below depends on floating-point arithmetic.
\<close>

datatype 'a tensor = Tensor (shape: "nat list") (elems: "'a list")

text \<open>
  The failures of the Python code are values: \<open>IndexError\<close> is Python's (a list index
  or a dimension out of range), \<open>ShapeMismatch\<close> is torch's \<^verbatim>\<open>RuntimeError\<close> on sizes
  that do not fit, \<open>EmptyTensorList\<close> is torch's \<^verbatim>\<open>RuntimeError\<close> on an empty list of
  tensors.
\<close>

datatype error = IndexError | ShapeMismatch | EmptyTensorList

text \<open>
  \<^verbatim>\<open>torch.split(t, sizes, dim=1)\<close> cuts the axis 1 of \<open>t\<close> into consecutive blocks of
  the given sizes. It raises when \<open>t\<close> has no axis 1, when a size is negative and when
  the sizes do not sum to the length of the axis. \<open>split_offsets\<close> gives each block
  its first column; \<open>narrow\<close> copies, row by row, the columns of one block.
\<close>

fun split_offsets :: "nat \<Rightarrow> nat list \<Rightarrow> (nat \<times> nat) list" where
  "split_offsets off [] = []"
| "split_offsets off (n # ns) = (off, n) # split_offsets (off + n) ns"

definition narrow :: "nat \<Rightarrow> nat \<Rightarrow> nat list \<Rightarrow> 'a list \<Rightarrow> nat \<Rightarrow> nat \<Rightarrow> 'a tensor" where
  "narrow b w rest xs off n =
     Tensor (b # n # rest)
       (concat (map (\<lambda>i. take (n * prod_list rest) (drop ((i * w + off) * prod_list rest) xs))
          [0..<b]))"

definition torch_split :: "'a tensor \<Rightarrow> int list \<Rightarrow> error + 'a tensor list" where
  "torch_split t sizes =
     (case shape t of
        b # w # rest \<Rightarrow>
          if list_ex (\<lambda>s. s < 0) sizes \<or> sum_list sizes \<noteq> int w then Inl ShapeMismatch
          else Inr (map (\<lambda>(off, n). narrow b w rest (elems t) off n)
                      (split_offsets 0 (map nat sizes)))
      | _ \<Rightarrow> Inl IndexError)"

text \<open>
  \<^verbatim>\<open>t[..., i]\<close> selects index \<open>i\<close> of the last axis and drops that axis;
  \<^verbatim>\<open>[t[..., i] for i in range(t.shape[-1])]\<close> lists all of them. \<^verbatim>\<open>t.shape[-1]\<close>
  raises on a tensor with no axis.
\<close>

definition select_last :: "'a tensor \<Rightarrow> nat \<Rightarrow> 'a tensor" where
  "select_last t i =
     Tensor (butlast (shape t))
       (map (\<lambda>j. elems t ! (j * last (shape t) + i)) [0..<prod_list (butlast (shape t))])"

definition last_axis_columns :: "'a tensor \<Rightarrow> error + 'a tensor list" where
  "last_axis_columns t =
     (if shape t = [] then Inl IndexError
      else Inr (map (select_last t) [0..<last (shape t)]))"

text \<open>\<^verbatim>\<open>t.unsqueeze(-1)\<close> adds a last axis of length one.\<close>

definition unsqueeze_last :: "'a tensor \<Rightarrow> 'a tensor" where
  "unsqueeze_last t = Tensor (shape t @ [1]) (elems t)"

text \<open>
  \<^verbatim>\<open>torch.cat(ts, dim=1)\<close> joins tensors along axis 1. It raises on an empty list, on a
  first tensor with no axis 1, and when the tensors disagree on another axis. (torch
  also skips one-dimensional empty tensors in the list; the module never builds one,
  and the model does not have the exception.)
\<close>

definition dim1 :: "'a tensor \<Rightarrow> nat" where
  "dim1 t = (case shape t of _ # w # _ \<Rightarrow> w | _ \<Rightarrow> 0)"

definition cat_compatible :: "nat \<Rightarrow> nat list \<Rightarrow> 'a tensor \<Rightarrow> bool" where
  "cat_compatible b rest t = (case shape t of b' # _ # rest' \<Rightarrow> b' = b \<and> rest' = rest | _ \<Rightarrow> False)"

definition torch_cat :: "'a tensor list \<Rightarrow> error + 'a tensor" where
  "torch_cat ts =
     (case ts of
        [] \<Rightarrow> Inl EmptyTensorList
      | t # _ \<Rightarrow>
          (case shape t of
             b # _ # rest \<Rightarrow>
               if list_all (cat_compatible b rest) ts
               then Inr (Tensor (b # sum_list (map dim1 ts) # rest)
                      (concat (map (\<lambda>i. concat (map (\<lambda>u. take (dim1 u * prod_list rest)
                                 (drop (i * dim1 u * prod_list rest) (elems u))) ts)) [0..<b])))
               else Inl ShapeMismatch
           | _ \<Rightarrow> Inl IndexError))"

text \<open>A Python list index \<^verbatim>\<open>xs[i]\<close> with \<open>i \<ge> 0\<close>: it raises past the end.\<close>

definition list_index :: "'a list \<Rightarrow> nat \<Rightarrow> error + 'a" where
  "list_index xs i = (if i < length xs then Inr (xs ! i) else Inl IndexError)"

section \<open>The action specification and the distribution classes\<close>

text \<open>
  \<^verbatim>\<open>ActionSpec\<close> lives in \<^verbatim>\<open>mlagents_envs.base_env\<close>; the module reads three
  attributes of it. Two of them are fields.
\<close>

record action_spec =
  continuous_action_size :: int
  discrete_action_branches :: "int list"

text \<open>
  Modelled from the spec: the attribute \<^verbatim>\<open>discrete_action_size\<close> of \<^verbatim>\<open>ActionSpec\<close>,
  which is not among the sources. Section 3 of the specification:
  \<^verbatim>\<open>discrete_size: int = length of discrete_branches\<close>.
\<close>

definition discrete_action_size :: "action_spec \<Rightarrow> int" where
  "discrete_action_size spec = int (length (discrete_action_branches spec))"

text \<open>
  The two distribution modules the constructor may create, with the arguments it
  passes: \<^verbatim>\<open>GaussianDistribution(encoding_size, continuous_act_size, conditional_sigma,
  tanh_squash)\<close> and \<^verbatim>\<open>MultiCategoricalDistribution(encoding_size, discrete_act_branches)\<close>.
\<close>

datatype distribution =
    GaussianDistribution int int bool bool
  | MultiCategoricalDistribution int "int list"

section \<open>ActionModel\<close>

record action_model =
  encoding_size :: int
  continuous_act_size :: int
  discrete_act_branches :: "int list"
  discrete_act_size :: int
  action_spec :: action_spec
  split_list :: "int list"
  distributions :: "distribution list"

text \<open>
  \<^verbatim>\<open>ActionModel.__init__\<close>, lines 21 to 54: the attributes are copied from the
  specification, then the two \<^verbatim>\<open>if\<close> statements append to \<^verbatim>\<open>_distributions\<close> and to
  \<^verbatim>\<open>_split_list\<close>, in this order.
\<close>

definition ActionModel_init :: "int \<Rightarrow> action_spec \<Rightarrow> bool \<Rightarrow> bool \<Rightarrow> action_model" where
  "ActionModel_init hidden_size spec conditional_sigma tanh_squash =
     (let m0 = \<lparr> encoding_size = hidden_size,
                 continuous_act_size = continuous_action_size spec,
                 discrete_act_branches = discrete_action_branches spec,
                 discrete_act_size = discrete_action_size spec,
                 action_spec = spec,
                 split_list = [],
                 distributions = [] \<rparr>;
          m1 = (if continuous_act_size m0 > 0
                then m0 \<lparr> distributions := distributions m0 @
                             [GaussianDistribution (encoding_size m0) (continuous_act_size m0)
                                conditional_sigma tanh_squash],
                          split_list := split_list m0 @ [continuous_act_size m0] \<rparr>
                else m0);
          m2 = (if discrete_act_size m1 > 0
                then m1 \<lparr> distributions := distributions m1 @
                             [MultiCategoricalDistribution (encoding_size m1)
                                (discrete_act_branches m1)],
                          split_list := split_list m1 @
                             replicate (nat (discrete_act_size m1)) 1 \<rparr>
                else m1)
      in m2)"

section \<open>Distribution instances\<close>

text \<open>
  The classes of \<^verbatim>\<open>mlagents.trainers.torch.distributions\<close> and \<^verbatim>\<open>ModelUtils\<close> are
  not among the sources. An instance is named by the distribution module that made
  it and the tensors it was made from; a categorical instance also by its branch.
\<close>

datatype 'a dist_instance =
    GaussianDistInstance distribution "'a tensor"
  | CategoricalDistInstance distribution nat "'a tensor" "'a tensor"

text \<open>
  Modelled from the spec: the call \<^verbatim>\<open>distribution(inputs, masks)\<close> of a distribution
  module, whose classes are not among the sources. Section 4.2 of the specification:
  a continuous factory ignores the mask and returns exactly one instance; a discrete
  factory returns exactly \<^verbatim>\<open>discrete_size\<close> instances, one per branch, in branch order,
  each built from the mask. The check of the mask's width that the specification
  leaves to the factory is not modelled.
\<close>

fun distribution_forward ::
  "distribution \<Rightarrow> 'a tensor \<Rightarrow> 'a tensor \<Rightarrow> 'a dist_instance list" where
  "distribution_forward (GaussianDistribution h n cs ts) inputs masks =
     [GaussianDistInstance (GaussianDistribution h n cs ts) inputs]"
| "distribution_forward (MultiCategoricalDistribution h bs) inputs masks =
     map (\<lambda>i. CategoricalDistInstance (MultiCategoricalDistribution h bs) i inputs masks)
       [0..<length bs]"

text \<open>
  What an instance can do is a parameter of the model: the five methods the module
  calls. Only \<^verbatim>\<open>sample\<close> draws random numbers; it takes the state of the generator
  and returns the next one.
\<close>

record ('a, 'g) dist_ops =
  sample :: "'a dist_instance \<Rightarrow> 'g \<Rightarrow> 'a tensor \<times> 'g"
  log_prob :: "'a dist_instance \<Rightarrow> 'a tensor \<Rightarrow> 'a tensor"
  entropy :: "'a dist_instance \<Rightarrow> 'a tensor"
  exported_model_output :: "'a dist_instance \<Rightarrow> 'a tensor"
  structure_action :: "'a dist_instance \<Rightarrow> 'a tensor \<Rightarrow> 'a tensor"

text \<open>
  Modelled from the spec: \<^verbatim>\<open>ModelUtils.get_probs_and_entropy(action_list, dists)\<close>,
  which is not among the sources. Section 4.3 of the specification: each action is
  scored against the instance at its position; the total log-probability is the sum
  of the instances' log-probabilities and the total entropy the sum of their
  entropies, by plain addition. Actions and instances are paired as Python's
  \<^verbatim>\<open>zip\<close> pairs them. The terms of a sum must have one shape, and there must be one
  term at least.
\<close>

definition tensor_add :: "'a::plus tensor \<Rightarrow> 'a tensor \<Rightarrow> error + 'a tensor" where
  "tensor_add s t =
     (if shape s = shape t then Inr (Tensor (shape s) (map2 (+) (elems s) (elems t)))
      else Inl ShapeMismatch)"

fun sum_tensors :: "'a::plus tensor \<Rightarrow> 'a tensor list \<Rightarrow> error + 'a tensor" where
  "sum_tensors acc [] = Inr acc"
| "sum_tensors acc (t # ts) =
     (case tensor_add acc t of Inl e \<Rightarrow> Inl e | Inr acc' \<Rightarrow> sum_tensors acc' ts)"

definition get_probs_and_entropy ::
  "('a::plus, 'g) dist_ops \<Rightarrow> 'a tensor list \<Rightarrow> 'a dist_instance list \<Rightarrow>
     error + ('a tensor \<times> 'a tensor)" where
  "get_probs_and_entropy ops action_list dists =
     (case zip action_list dists of
        [] \<Rightarrow> Inl EmptyTensorList
      | (a, d) # rest \<Rightarrow>
          (case sum_tensors (log_prob ops d a) (map (\<lambda>(a', d'). log_prob ops d' a') rest) of
             Inl e \<Rightarrow> Inl e
           | Inr log_probs \<Rightarrow>
               (case sum_tensors (entropy ops d) (map (\<lambda>(a', d'). entropy ops d') rest) of
                  Inl e \<Rightarrow> Inl e
                | Inr entropies \<Rightarrow> Inr (log_probs, entropies))))"

section \<open>The operations of ActionModel\<close>

text \<open>\<^verbatim>\<open>_sample_action\<close>, lines 56 to 64: one draw per instance, in list order.\<close>

fun sample_action ::
  "('a, 'g) dist_ops \<Rightarrow> 'a dist_instance list \<Rightarrow> 'g \<Rightarrow> 'a tensor list \<times> 'g" where
  "sample_action ops [] g = ([], g)"
| "sample_action ops (d # ds) g =
     (case sample ops d g of
        (a, g1) \<Rightarrow> (case sample_action ops ds g1 of (as, g2) \<Rightarrow> (a # as, g2)))"

text \<open>
  \<^verbatim>\<open>_get_dists\<close>, lines 66 to 74: every distribution module is called, in list order,
  and the instances each one returns are appended, in order, to one flat list.
\<close>

fun get_dists_of ::
  "distribution list \<Rightarrow> 'a tensor \<Rightarrow> 'a tensor \<Rightarrow> 'a dist_instance list" where
  "get_dists_of [] inputs masks = []"
| "get_dists_of (distribution # ds) inputs masks =
     distribution_forward distribution inputs masks @ get_dists_of ds inputs masks"

definition get_dists :: "action_model \<Rightarrow> 'a tensor \<Rightarrow> 'a tensor \<Rightarrow> 'a dist_instance list" where
  "get_dists m inputs masks = get_dists_of (distributions m) inputs masks"

text \<open>
  \<^verbatim>\<open>evaluate\<close>, lines 76 to 86. \<open>action_columns\<close> is the loop of lines 82 to 84: each
  block of the split is cut into the columns of its last axis, and all columns go to
  one list. \<open>evaluate_action_lists\<close> is the list handed to
  \<^verbatim>\<open>get_probs_and_entropy\<close>.
\<close>

fun action_columns :: "'a tensor list \<Rightarrow> error + 'a tensor list" where
  "action_columns [] = Inr []"
| "action_columns (split_action # rest) =
     (case last_axis_columns split_action of
        Inl e \<Rightarrow> Inl e
      | Inr action_list \<Rightarrow>
          (case action_columns rest of
             Inl e \<Rightarrow> Inl e
           | Inr action_lists \<Rightarrow> Inr (action_list @ action_lists)))"

definition evaluate_action_lists :: "action_model \<Rightarrow> 'a tensor \<Rightarrow> error + 'a tensor list" where
  "evaluate_action_lists m actions =
     (case torch_split actions (split_list m) of
        Inl e \<Rightarrow> Inl e
      | Inr split_actions \<Rightarrow> action_columns split_actions)"

definition evaluate ::
  "('a::plus, 'g) dist_ops \<Rightarrow> action_model \<Rightarrow> 'a tensor \<Rightarrow> 'a tensor \<Rightarrow> 'a tensor \<Rightarrow>
     error + ('a tensor \<times> 'a tensor)" where
  "evaluate ops m inputs masks actions =
     (let dists = get_dists m inputs masks in
      case evaluate_action_lists m actions of
        Inl e \<Rightarrow> Inl e
      | Inr action_lists \<Rightarrow> get_probs_and_entropy ops action_lists dists)"

text \<open>
  \<^verbatim>\<open>get_action_out\<close>, lines 88 to 94. Python builds the tuple from left to right:
  \<^verbatim>\<open>dists[0]\<close>, then \<^verbatim>\<open>dists[1]\<close>, then the concatenation.
\<close>

definition get_action_out ::
  "('a, 'g) dist_ops \<Rightarrow> action_model \<Rightarrow> 'a tensor \<Rightarrow> 'a tensor \<Rightarrow>
     error + ('a tensor \<times> 'a tensor \<times> 'a tensor)" where
  "get_action_out ops m inputs masks =
     (let dists = get_dists m inputs masks in
      case list_index dists 0 of
        Inl e \<Rightarrow> Inl e
      | Inr d0 \<Rightarrow>
          (case list_index dists 1 of
             Inl e \<Rightarrow> Inl e
           | Inr d1 \<Rightarrow>
               (case torch_cat (map (exported_model_output ops) dists) of
                  Inl e \<Rightarrow> Inl e
                | Inr combined \<Rightarrow>
                    Inr (exported_model_output ops d0, exported_model_output ops d1, combined))))"

text \<open>
  \<^verbatim>\<open>forward\<close>, lines 96 to 107. The draws change the generator, also when a later
  step raises.
\<close>

definition forward ::
  "('a::plus, 'g) dist_ops \<Rightarrow> action_model \<Rightarrow> 'a tensor \<Rightarrow> 'a tensor \<Rightarrow> 'g \<Rightarrow>
     (error + ('a tensor \<times> 'a tensor \<times> 'a tensor)) \<times> 'g" where
  "forward ops m inputs masks g =
     (let dists = get_dists m inputs masks in
      case sample_action ops dists g of
        (action_lists, g') \<Rightarrow>
          (let action_outs =
                 map (\<lambda>(action_list, dist). structure_action ops dist (unsqueeze_last action_list))
                   (zip action_lists dists)
           in case get_probs_and_entropy ops action_lists dists of
                Inl e \<Rightarrow> (Inl e, g')
              | Inr (log_probs, entropies) \<Rightarrow>
                  (case torch_cat action_outs of
                     Inl e \<Rightarrow> (Inl e, g')
                   | Inr action \<Rightarrow> (Inr (action, log_probs, entropies), g'))))"

section \<open>What the specification asks of an instance\<close>

text \<open>
  Modelled from the spec: the shapes of what the methods of an instance return; the
  classes are not among the sources. Section 4.3 of the specification: the
  log-probability and the entropy are one scalar per batch element, and the
  structured output of a sample keeps a continuous sample at its native width and
  makes a discrete sample a single trailing column. \<open>structured_width\<close> is that
  width. \<open>instance_contract ops B d\<close> says that the instance \<open>d\<close> keeps to these
  shapes at batch size \<open>B\<close> on the actions the specification gives it: a sample it
  has drawn itself, and its own block of an actions tensor, of shape
  \<open>[B, structured_width d]\<close>. Nothing is asked of it on an action of another shape.
\<close>

fun structured_width :: "'a dist_instance \<Rightarrow> nat" where
  "structured_width (GaussianDistInstance f inputs) =
     (case f of GaussianDistribution h n cs ts \<Rightarrow> nat n | MultiCategoricalDistribution h bs \<Rightarrow> 0)"
| "structured_width (CategoricalDistInstance f i inputs masks) = 1"

definition instance_contract :: "('a, 'g) dist_ops \<Rightarrow> nat \<Rightarrow> 'a dist_instance \<Rightarrow> bool" where
  "instance_contract ops B d =
     ((\<forall>g. shape (log_prob ops d (fst (sample ops d g))) = [B]) \<and>
      (\<forall>a. shape a = [B, structured_width d] \<longrightarrow> shape (log_prob ops d a) = [B]) \<and>
      shape (entropy ops d) = [B] \<and>
      (\<forall>g. shape (structure_action ops d (unsqueeze_last (fst (sample ops d g)))) =
             [B, structured_width d]))"

section \<open>A small library of instances\<close>

text \<open>
  The closed examples below need instances that compute. In \<open>demo_ops\<close> the elements
  are integers and the generator is a counter: a draw returns a block of the
  structured width that holds the counter, and increments the counter; the log-probability of an action is the sum of its
  elements, in every batch position; the entropy is one; the exported form of an
  instance is a block of its structured width that holds \<open>- 1\<close> for the Gaussian
  instance and the branch index for a categorical one. The batch size is the first
  axis of the encoding the instance was made from.
\<close>

fun instance_inputs :: "'a dist_instance \<Rightarrow> 'a tensor" where
  "instance_inputs (GaussianDistInstance f inputs) = inputs"
| "instance_inputs (CategoricalDistInstance f i inputs masks) = inputs"

definition batch_of :: "'a dist_instance \<Rightarrow> nat" where
  "batch_of d = (case shape (instance_inputs d) of [] \<Rightarrow> 0 | b # _ \<Rightarrow> b)"

fun branch_tag :: "'a dist_instance \<Rightarrow> int" where
  "branch_tag (GaussianDistInstance f inputs) = - 1"
| "branch_tag (CategoricalDistInstance f i inputs masks) = int i"

definition demo_ops :: "(int, nat) dist_ops" where
  "demo_ops =
     \<lparr> sample = (\<lambda>d g. (Tensor [batch_of d, structured_width d]
          (replicate (batch_of d * structured_width d) (int g)), Suc g)),
       log_prob = (\<lambda>d a. Tensor [batch_of d] (replicate (batch_of d) (sum_list (elems a)))),
       entropy = (\<lambda>d. Tensor [batch_of d] (replicate (batch_of d) 1)),
       exported_model_output = (\<lambda>d. Tensor [batch_of d, structured_width d]
          (replicate (batch_of d * structured_width d) (branch_tag d))),
       structure_action = (\<lambda>d a. Tensor [batch_of d, structured_width d] (elems a)) \<rparr>"

text \<open>
  \<open>strict_ops\<close> is \<open>demo_ops\<close> with a log-probability that minds the shape of the
  action. On the instance's own block \<open>[B, structured_width d]\<close>, and on a single
  column \<open>[B]\<close> for an instance of width one, it is the log-probability of
  \<open>demo_ops\<close>. On an action of another shape it returns one entry per batch element
  and dimension of the instance, as an elementwise scorer does.
\<close>

definition strict_ops :: "(int, nat) dist_ops" where
  "strict_ops =
     demo_ops \<lparr> log_prob := (\<lambda>d a.
       if shape a = [batch_of d, structured_width d]
          \<or> (structured_width d = 1 \<and> shape a = [batch_of d])
       then log_prob demo_ops d a
       else Tensor [batch_of d, structured_width d]
              (replicate (batch_of d * structured_width d) 0)) \<rparr>"

section \<open>Construction\<close>

lemma init_split_list:
  "split_list (ActionModel_init h spec cs ts) =
     (if 0 < continuous_action_size spec then [continuous_action_size spec] else []) @
     replicate (length (discrete_action_branches spec)) 1"
  by (simp add: ActionModel_init_def Let_def discrete_action_size_def)

lemma init_distributions:
  "distributions (ActionModel_init h spec cs ts) =
     (if 0 < continuous_action_size spec
      then [GaussianDistribution h (continuous_action_size spec) cs ts] else []) @
     (if discrete_action_branches spec \<noteq> []
      then [MultiCategoricalDistribution h (discrete_action_branches spec)] else [])"
  by (simp add: ActionModel_init_def Let_def discrete_action_size_def)

lemma get_dists_init:
  "get_dists (ActionModel_init h spec cs ts) inputs masks =
     (if 0 < continuous_action_size spec
      then [GaussianDistInstance (GaussianDistribution h (continuous_action_size spec) cs ts) inputs]
      else []) @
     map (\<lambda>i. CategoricalDistInstance
                 (MultiCategoricalDistribution h (discrete_action_branches spec)) i inputs masks)
       [0..<length (discrete_action_branches spec)]"
  by (simp add: get_dists_def init_distributions)

lemma get_dists_init_length:
  "length (get_dists (ActionModel_init h spec cs ts) inputs masks) =
     (if 0 < continuous_action_size spec then 1 else 0) + length (discrete_action_branches spec)"
  by (simp add: get_dists_init)

text \<open>
  Claim C5. For a continuous size \<open>C \<ge> 0\<close> and a branch list of length \<open>D\<close>, the
  constructor's split plan is \<open>[C]\<close> followed by \<open>D\<close> ones when \<open>C > 0\<close>, with sum
  \<open>C + D\<close>, and \<open>D\<close> ones when \<open>C = 0\<close>. The right-hand sides mention \<open>C\<close> and \<open>D\<close>
  only, so the plan is a function of these two numbers: not of the encoding width, of
  the two flags or of the sizes of the branches. The constructor is total: it has no
  failing branch.
\<close>

theorem split_plan_of_sizes:
  assumes "0 \<le> continuous_action_size spec"
  shows "(0 < continuous_action_size spec \<longrightarrow>
            split_list (ActionModel_init h spec cs ts) =
              continuous_action_size spec # replicate (length (discrete_action_branches spec)) 1
          \<and> sum_list (split_list (ActionModel_init h spec cs ts)) =
              continuous_action_size spec + int (length (discrete_action_branches spec)))
       \<and> (continuous_action_size spec = 0 \<longrightarrow>
            split_list (ActionModel_init h spec cs ts) =
              replicate (length (discrete_action_branches spec)) 1)"
  by (simp add: init_split_list sum_list_replicate)

theorem split_plan_of_sizes_witness:
  "split_list (ActionModel_init 8
      \<lparr> continuous_action_size = 2, discrete_action_branches = [3, 4] \<rparr> False False) = [2, 1, 1]
   \<and> sum_list (split_list (ActionModel_init 8
      \<lparr> continuous_action_size = 2, discrete_action_branches = [3, 4] \<rparr> False False)) = 4
   \<and> split_list (ActionModel_init 8
      \<lparr> continuous_action_size = 0, discrete_action_branches = [2, 3] \<rparr> True False) = [1, 1]"
  using split_plan_of_sizes [of "\<lparr> continuous_action_size = 2, discrete_action_branches = [3, 4] \<rparr>"
      8 False False]
    split_plan_of_sizes [of "\<lparr> continuous_action_size = 0, discrete_action_branches = [2, 3] \<rparr>"
      8 True False]
  by (simp add: numeral_2_eq_2)

text \<open>
  Claim C10. Construction with no continuous dimension and no discrete branch returns
  a module: there is no guard against the degenerate specification. Its list of
  distributions and its split plan are both empty, and the module yields no
  distribution instance, whatever the encoding and the mask.
\<close>

theorem degenerate_spec_constructs:
  "distributions (ActionModel_init h
       \<lparr> continuous_action_size = 0, discrete_action_branches = [] \<rparr> cs ts) = []
   \<and> split_list (ActionModel_init h
       \<lparr> continuous_action_size = 0, discrete_action_branches = [] \<rparr> cs ts) = []
   \<and> get_dists (ActionModel_init h
       \<lparr> continuous_action_size = 0, discrete_action_branches = [] \<rparr> cs ts) inputs masks = []"
  by (simp add: init_split_list init_distributions get_dists_init)

section \<open>The order of the distribution instances\<close>

text \<open>
  The three operations read the module's distributions, the encoding and the mask
  through \<open>get_dists\<close> only (lines 79, 89 and 99): two calls that get the same
  instances compute the same.
\<close>

lemma operations_read_get_dists:
  assumes "get_dists m' inputs' masks' = get_dists m inputs masks"
  shows "forward ops m' inputs' masks' g = forward ops m inputs masks g"
    and "get_action_out ops m' inputs' masks' = get_action_out ops m inputs masks"
    and "split_list m' = split_list m \<Longrightarrow>
           evaluate ops m' inputs' masks' actions = evaluate ops m inputs masks actions"
  using assms
  by (simp_all add: forward_def get_action_out_def evaluate_def evaluate_action_lists_def)

text \<open>
  Claim C6. For every encoding and mask, the instances a constructed module obtains
  are: the one continuous instance, present exactly when the continuous size is
  positive, followed by one discrete instance per branch, in branch order; so there
  are as many discrete instances as branches. \<open>forward\<close>, \<open>evaluate\<close> and
  \<open>get_action_out\<close> all obtain their instances by this one function.
\<close>

theorem dists_continuous_then_branches:
  "get_dists (ActionModel_init h spec cs ts) inputs masks =
     (if 0 < continuous_action_size spec
      then [GaussianDistInstance (GaussianDistribution h (continuous_action_size spec) cs ts) inputs]
      else []) @
     map (\<lambda>i. CategoricalDistInstance
                 (MultiCategoricalDistribution h (discrete_action_branches spec)) i inputs masks)
       [0..<length (discrete_action_branches spec)]
   \<and> length (get_dists (ActionModel_init h spec cs ts) inputs masks) =
     (if 0 < continuous_action_size spec then 1 else 0) + length (discrete_action_branches spec)"
  by (simp add: get_dists_init)

section \<open>Shapes\<close>

lemma sum_tensors_shape:
  "shape acc = s \<Longrightarrow> list_all (\<lambda>t. shape t = s) ts \<Longrightarrow>
     \<exists>r. sum_tensors acc ts = Inr r \<and> shape r = s"
  by (induction ts arbitrary: acc) (auto simp: tensor_add_def)

lemma get_probs_and_entropy_shapes:
  assumes "zip action_list dists \<noteq> []"
    and "\<And>a d. (a, d) \<in> set (zip action_list dists) \<Longrightarrow>
           shape (log_prob ops d a) = s \<and> shape (entropy ops d) = s"
  shows "\<exists>lp ent. get_probs_and_entropy ops action_list dists = Inr (lp, ent)
           \<and> shape lp = s \<and> shape ent = s"
proof -
  from assms(1) obtain a d rest where z: "zip action_list dists = (a, d) # rest"
    by (cases "zip action_list dists") auto
  have d: "shape (log_prob ops d a) = s \<and> shape (entropy ops d) = s"
    using assms(2) [of a d] z by simp
  have r: "\<And>a' d'. (a', d') \<in> set rest \<Longrightarrow>
      shape (log_prob ops d' a') = s \<and> shape (entropy ops d') = s"
  proof -
    fix a' d' assume "(a', d') \<in> set rest"
    then have "(a', d') \<in> set (zip action_list dists)"
      using z by simp
    then show "shape (log_prob ops d' a') = s \<and> shape (entropy ops d') = s"
      using assms(2) by blast
  qed
  have "list_all (\<lambda>t. shape t = s) (map (\<lambda>(a', d'). log_prob ops d' a') rest)"
    using r by (auto simp: list_all_iff)
  then obtain lp where lp:
      "sum_tensors (log_prob ops d a) (map (\<lambda>(a', d'). log_prob ops d' a') rest) = Inr lp"
      "shape lp = s"
    using sum_tensors_shape [of "log_prob ops d a" s] d by blast
  have "list_all (\<lambda>t. shape t = s) (map (\<lambda>(a', d'). entropy ops d') rest)"
    using r by (auto simp: list_all_iff)
  then obtain ent where ent:
      "sum_tensors (entropy ops d) (map (\<lambda>(a', d'). entropy ops d') rest) = Inr ent"
      "shape ent = s"
    using sum_tensors_shape [of "entropy ops d" s] d by blast
  show ?thesis
    using z lp ent by (simp add: get_probs_and_entropy_def)
qed

lemma torch_cat_shape:
  assumes "ts \<noteq> []" and "list_all (\<lambda>t. shape t = [b, dim1 t]) ts"
  shows "\<exists>r. torch_cat ts = Inr r \<and> shape r = [b, sum_list (map dim1 ts)]"
proof -
  from assms(1) obtain t rest where ts: "ts = t # rest" by (cases ts) auto
  have t: "shape t = [b, dim1 t]" using assms(2) ts by simp
  have "list_all (cat_compatible b []) ts"
    using assms(2) by (auto simp: list_all_iff cat_compatible_def)
  then show ?thesis
    using ts t by (auto simp: torch_cat_def split: list.splits)
qed

lemma sample_action_length:
  "sample_action ops ds g = (as, g') \<Longrightarrow> length as = length ds"
  by (induction ds arbitrary: g as g') (auto split: prod.splits)

lemma sample_action_draws:
  "sample_action ops ds g = (as, g') \<Longrightarrow> (a, d) \<in> set (zip as ds) \<Longrightarrow>
     \<exists>g0. a = fst (sample ops d g0)"
proof (induction ds arbitrary: g as g')
  case Nil
  then show ?case by simp
next
  case (Cons d' ds)
  obtain a1 g1 where s1: "sample ops d' g = (a1, g1)"
    by (cases "sample ops d' g")
  obtain as' g2 where s2: "sample_action ops ds g1 = (as', g2)"
    by (cases "sample_action ops ds g1")
  have as: "as = a1 # as'"
    using Cons.prems(1) s1 s2 by simp
  show ?case
  proof (cases "(a, d) = (a1, d')")
    case True
    then have "a = fst (sample ops d g)" using s1 by simp
    then show ?thesis by blast
  next
    case False
    then have "(a, d) \<in> set (zip as' ds)"
      using Cons.prems(2) as by auto
    then show ?thesis
      using Cons.IH [OF s2] by blast
  qed
qed

lemma torch_split_fits:
  assumes "shape t = [b, w]" and "list_all (\<lambda>s. 0 \<le> s) sizes" and "sum_list sizes = int w"
  shows "torch_split t sizes =
           Inr (map (\<lambda>(off, n). narrow b w [] (elems t) off n) (split_offsets 0 (map nat sizes)))"
  using assms by (auto simp: torch_split_def list_all_iff list_ex_iff)

lemma action_columns_ranked:
  "list_all (\<lambda>t. shape t \<noteq> []) ts \<Longrightarrow>
     action_columns ts = Inr (concat (map (\<lambda>t. map (select_last t) [0..<last (shape t)]) ts))"
  by (induction ts) (auto simp: last_axis_columns_def)

lemma split_offsets_snd: "map snd (split_offsets off ns) = ns"
  by (induction ns arbitrary: off) auto

text \<open>
  On an actions tensor of the full width, lines 80 to 84 of \<open>evaluate\<close> succeed and
  make one column per unit of width: \<open>C + D\<close> columns, for \<open>1 + D\<close> instances when
  \<open>C > 0\<close>.
\<close>

lemma evaluate_action_lists_init:
  assumes "shape actions =
             [b, nat (continuous_action_size spec) + length (discrete_action_branches spec)]"
  shows "\<exists>als. evaluate_action_lists (ActionModel_init h spec cs ts) actions = Inr als
           \<and> length als =
               nat (continuous_action_size spec) + length (discrete_action_branches spec)"
proof -
  let ?m = "ActionModel_init h spec cs ts"
  let ?w = "nat (continuous_action_size spec) + length (discrete_action_branches spec)"
  have nonneg: "list_all (\<lambda>s. 0 \<le> s) (split_list ?m)"
    by (auto simp: init_split_list list_all_iff)
  have total: "sum_list (split_list ?m) = int ?w"
    by (simp add: init_split_list sum_list_replicate)
  let ?blocks = "map (\<lambda>(off, n). narrow b ?w [] (elems actions) off n)
                   (split_offsets 0 (map nat (split_list ?m)))"
  have sp: "torch_split actions (split_list ?m) = Inr ?blocks"
    using torch_split_fits [OF assms nonneg total] .
  have ranked: "list_all (\<lambda>t. shape t \<noteq> []) ?blocks"
    by (auto simp: list_all_iff narrow_def)
  have widths: "map (\<lambda>t. last (shape t)) ?blocks = map nat (split_list ?m)"
  proof -
    have "map (\<lambda>t. last (shape t)) ?blocks = map snd (split_offsets 0 (map nat (split_list ?m)))"
      by (auto simp: narrow_def)
    then show ?thesis by (simp add: split_offsets_snd)
  qed
  have "length (concat (map (\<lambda>t. map (select_last t) [0..<last (shape t)]) ?blocks))
          = sum_list (map (\<lambda>t. last (shape t)) ?blocks)"
    by (simp add: length_concat comp_def)
  also have "\<dots> = sum_list (map nat (split_list ?m))"
    using widths by simp
  also have "\<dots> = ?w"
    by (simp add: init_split_list sum_list_replicate)
  finally show ?thesis
    using sp action_columns_ranked [OF ranked] by (simp add: evaluate_action_lists_def)
qed

lemma structured_width_init:
  "sum_list (map structured_width (get_dists (ActionModel_init h spec cs ts) inputs masks)) =
     nat (continuous_action_size spec) + length (discrete_action_branches spec)"
  by (simp add: get_dists_init comp_def sum_list_triv)

text \<open>
  \<open>forward\<close>, for a specification with at least one action family and instances that
  keep the contract at batch size \<open>B\<close>: every instance scores the sample it has
  drawn, the action is the concatenation of the structured samples and has the shape
  \<open>[B, C + D]\<close>, one column per branch whatever the sizes of the branches, and the
  log-probability and the entropy have the shape \<open>[B]\<close>.
\<close>

lemma forward_shapes:
  assumes family: "0 < continuous_action_size spec \<or> discrete_action_branches spec \<noteq> []"
    and contract: "list_all (instance_contract ops B)
                     (get_dists (ActionModel_init h spec cs ts) inputs masks)"
  shows "\<exists>als action lp ent g'.
            sample_action ops (get_dists (ActionModel_init h spec cs ts) inputs masks) g = (als, g')
            \<and> torch_cat
                 (map (\<lambda>(action_list, dist). structure_action ops dist (unsqueeze_last action_list))
                    (zip als (get_dists (ActionModel_init h spec cs ts) inputs masks)))
                = Inr action
            \<and> get_probs_and_entropy ops als
                 (get_dists (ActionModel_init h spec cs ts) inputs masks) = Inr (lp, ent)
            \<and> forward ops (ActionModel_init h spec cs ts) inputs masks g
                = (Inr (action, lp, ent), g')
            \<and> shape action =
                [B, nat (continuous_action_size spec) + length (discrete_action_branches spec)]
            \<and> shape lp = [B] \<and> shape ent = [B]"
proof -
  let ?m = "ActionModel_init h spec cs ts"
  let ?dists = "get_dists ?m inputs masks"
  let ?w = "nat (continuous_action_size spec) + length (discrete_action_branches spec)"
  have some: "?dists \<noteq> []"
    using family get_dists_init_length [of h spec cs ts inputs masks] by auto
  have kept: "\<And>d. d \<in> set ?dists \<Longrightarrow> instance_contract ops B d"
    using contract by (simp add: list_all_iff)
  obtain als g' where sa: "sample_action ops ?dists g = (als, g')"
    by (cases "sample_action ops ?dists g")
  have len: "length als = length ?dists"
    using sample_action_length [OF sa] .
  then have paired: "zip als ?dists \<noteq> []"
    using some by (cases als; cases ?dists) auto
  have own: "\<And>a d. (a, d) \<in> set (zip als ?dists) \<Longrightarrow>
      d \<in> set ?dists \<and> (\<exists>g0. a = fst (sample ops d g0))"
    using sample_action_draws [OF sa] by (auto dest: set_zip_rightD)
  have scores: "\<And>a d. (a, d) \<in> set (zip als ?dists) \<Longrightarrow>
      shape (log_prob ops d a) = [B] \<and> shape (entropy ops d) = [B]"
  proof -
    fix a d assume "(a, d) \<in> set (zip als ?dists)"
    then obtain g0 where "d \<in> set ?dists" "a = fst (sample ops d g0)"
      using own by blast
    then show "shape (log_prob ops d a) = [B] \<and> shape (entropy ops d) = [B]"
      using kept [of d] by (simp add: instance_contract_def)
  qed
  obtain lp ent where pe: "get_probs_and_entropy ops als ?dists = Inr (lp, ent)"
      "shape lp = [B]" "shape ent = [B]"
    using get_probs_and_entropy_shapes [OF paired scores] by blast
  let ?outs = "map (\<lambda>(action_list, dist). structure_action ops dist (unsqueeze_last action_list))
                 (zip als ?dists)"
  have shapes: "\<And>p. p \<in> set (zip als ?dists) \<Longrightarrow>
      shape (structure_action ops (snd p) (unsqueeze_last (fst p))) = [B, structured_width (snd p)]"
  proof -
    fix p assume "p \<in> set (zip als ?dists)"
    then have "(fst p, snd p) \<in> set (zip als ?dists)" by simp
    then obtain g0 where "snd p \<in> set ?dists" "fst p = fst (sample ops (snd p) g0)"
      using own by blast
    then show "shape (structure_action ops (snd p) (unsqueeze_last (fst p)))
                 = [B, structured_width (snd p)]"
      using kept [of "snd p"] by (simp add: instance_contract_def)
  qed
  have widths: "map dim1 ?outs = map structured_width ?dists"
  proof -
    have "map dim1 ?outs = map (\<lambda>p. structured_width (snd p)) (zip als ?dists)"
      using shapes by (auto simp: dim1_def)
    also have "\<dots> = map structured_width (map snd (zip als ?dists))"
      by (simp add: comp_def)
    also have "\<dots> = map structured_width ?dists"
      using len by simp
    finally show ?thesis .
  qed
  have "?outs \<noteq> []"
    using paired by simp
  moreover have "list_all (\<lambda>t. shape t = [B, dim1 t]) ?outs"
    using shapes by (auto simp: list_all_iff dim1_def)
  ultimately obtain action where cat: "torch_cat ?outs = Inr action"
      "shape action = [B, sum_list (map dim1 ?outs)]"
    using torch_cat_shape by blast
  have "shape action = [B, ?w]"
    using cat(2) widths structured_width_init [of h spec cs ts inputs masks] by simp
  moreover have "forward ops ?m inputs masks g = (Inr (action, lp, ent), g')"
    using sa pe(1) cat(1) by (simp add: forward_def Let_def)
  ultimately show ?thesis
    using sa pe cat(1) by blast
qed

text \<open>
  \<open>strict_ops\<close> keeps the contract, at every batch size and width: the instances of
  a module made from an encoding of batch size \<open>B\<close> keep it at \<open>B\<close>.
\<close>

lemma strict_ops_keeps_contract:
  "list_all (instance_contract strict_ops B)
     (get_dists (ActionModel_init h spec cs ts) (Tensor (B # rest) xs) masks)"
  by (auto simp: get_dists_init list_all_iff instance_contract_def strict_ops_def demo_ops_def
      batch_of_def)


section \<open>evaluate\<close>

text \<open>
  Claim C8. On an actions tensor \<open>[b, w]\<close> whose width \<open>w\<close> is not the total of the
  split plan, \<open>evaluate\<close> fails with the shape-mismatch error of \<^verbatim>\<open>torch.split\<close>: the
  result is the error alone, with no log-probability and no entropy.
\<close>

theorem evaluate_width_mismatch:
  assumes "shape actions = [b, w]" and "int w \<noteq> sum_list (split_list m)"
  shows "evaluate ops m inputs masks actions = Inl ShapeMismatch"
  using assms by (auto simp: evaluate_def evaluate_action_lists_def torch_split_def)

theorem evaluate_width_mismatch_witness:
  "evaluate demo_ops
     (ActionModel_init 8 \<lparr> continuous_action_size = 2, discrete_action_branches = [3, 4] \<rparr> False False)
     (Tensor [1, 8] (replicate 8 0)) (Tensor [1, 7] (replicate 7 1)) (Tensor [1, 3] [5, 6, 1])
   = Inl ShapeMismatch"
  using evaluate_width_mismatch
    [of "Tensor [1, 3] [5, 6, 1]" 1 3
        "ActionModel_init 8 \<lparr> continuous_action_size = 2, discrete_action_branches = [3, 4] \<rparr> False False"
        demo_ops]
  by (simp add: init_split_list)

text \<open>
  Claim C9. \<open>evaluate\<close> draws nothing: its result is fixed by the module, the
  encoding, the mask, the actions and the two scoring methods. It takes no generator
  state, and two instance libraries that score alike make it return the same
  log-probability and entropy, however they sample. So two calls with the same inputs
  return the same.
\<close>

theorem evaluate_ignores_sampling:
  assumes "log_prob ops' = log_prob ops" and "entropy ops' = entropy ops"
  shows "evaluate ops' m inputs masks actions = evaluate ops m inputs masks actions"
proof -
  have "get_probs_and_entropy ops' al ds = get_probs_and_entropy ops al ds" for al ds
    unfolding get_probs_and_entropy_def assms ..
  then show ?thesis
    by (simp add: evaluate_def split: sum.splits)
qed

theorem evaluate_ignores_sampling_witness:
  "evaluate (demo_ops \<lparr> sample := (\<lambda>d g. (Tensor [0] [], g)) \<rparr>)
     (ActionModel_init 8 \<lparr> continuous_action_size = 1, discrete_action_branches = [3] \<rparr> False False)
     (Tensor [1, 8] (replicate 8 0)) (Tensor [1, 3] [1, 1, 1]) (Tensor [1, 2] [7, 2])
   = evaluate demo_ops
     (ActionModel_init 8 \<lparr> continuous_action_size = 1, discrete_action_branches = [3] \<rparr> False False)
     (Tensor [1, 8] (replicate 8 0)) (Tensor [1, 3] [1, 1, 1]) (Tensor [1, 2] [7, 2])
   \<and> evaluate demo_ops
     (ActionModel_init 8 \<lparr> continuous_action_size = 1, discrete_action_branches = [3] \<rparr> False False)
     (Tensor [1, 8] (replicate 8 0)) (Tensor [1, 3] [1, 1, 1]) (Tensor [1, 2] [7, 2])
   = Inr (Tensor [1] [9], Tensor [1] [2])"
proof -
  have "evaluate demo_ops
     (ActionModel_init 8 \<lparr> continuous_action_size = 1, discrete_action_branches = [3] \<rparr> False False)
     (Tensor [1, 8] (replicate 8 0)) (Tensor [1, 3] [1, 1, 1]) (Tensor [1, 2] [7, 2])
   = Inr (Tensor [1] [9], Tensor [1] [2])"
    by (simp add: evaluate_def evaluate_action_lists_def init_split_list torch_split_def narrow_def
        last_axis_columns_def select_last_def get_dists_init get_probs_and_entropy_def
        tensor_add_def demo_ops_def batch_of_def)
  then show ?thesis
    using evaluate_ignores_sampling
      [of "demo_ops \<lparr> sample := (\<lambda>d g. (Tensor [0] [], g)) \<rparr>" demo_ops]
    by simp
qed

text \<open>
  \<open>forward\<close> is the operation that draws: in the same module and on the same inputs,
  another generator state gives another action and another log-probability.
\<close>

lemma forward_depends_on_generator:
  "fst (forward demo_ops
     (ActionModel_init 8 \<lparr> continuous_action_size = 0, discrete_action_branches = [3] \<rparr> False False)
     (Tensor [1, 8] (replicate 8 0)) (Tensor [1, 3] [1, 1, 1]) 0)
   = Inr (Tensor [1, 1] [0], Tensor [1] [0], Tensor [1] [1])
   \<and> fst (forward demo_ops
     (ActionModel_init 8 \<lparr> continuous_action_size = 0, discrete_action_branches = [3] \<rparr> False False)
     (Tensor [1, 8] (replicate 8 0)) (Tensor [1, 3] [1, 1, 1]) 1)
   = Inr (Tensor [1, 1] [1], Tensor [1] [1], Tensor [1] [1])"
  by (simp add: forward_def get_dists_init demo_ops_def batch_of_def get_probs_and_entropy_def
      torch_cat_def cat_compatible_def dim1_def unsqueeze_last_def)

text \<open>
  The loop of lines 82 to 84 lists the last axis of each block. On an actions tensor
  with a trailing axis of length one, \<open>[B, W, 1]\<close>, it leaves each block whole: one
  action per instance.
\<close>

lemma evaluate_action_lists_trailing_axis:
  "evaluate_action_lists
     (ActionModel_init h \<lparr> continuous_action_size = 2, discrete_action_branches = [3] \<rparr> cs ts)
     (Tensor [2, 3, 1] [a0, a1, a2, b0, b1, b2])
     = Inr [Tensor [2, 2] [a0, a1, b0, b1], Tensor [2, 1] [a2, b2]]"
proof -
  have upt2: "[0..<2] = [0, Suc 0]"
    by (simp add: numeral_2_eq_2)
  have upt4: "[0..<4] = [0, 1, 2, 3]"
    by code_simp
  show ?thesis
    by (simp add: evaluate_action_lists_def init_split_list torch_split_def narrow_def
        last_axis_columns_def select_last_def upt2 upt4)
qed

text \<open>
  Claim C1, at two continuous dimensions and one branch of three choices, on the
  actions tensor of the specification's interface, \<open>[B, W]\<close>: a batch of two actions
  \<open>[a0, a1, a2]\<close> and \<open>[b0, b1, b2]\<close>. \<^verbatim>\<open>torch.split\<close> makes the continuous block
  and the discrete column, but lines 82 to 84 cut the continuous block into its two
  columns, so three columns are handed over with two instances. The Gaussian instance
  scores the first continuous column alone, the instance of the branch scores the
  second continuous column, and the discrete column \<open>[a2, b2]\<close> is not scored: the
  result does not mention it. \<open>forward\<close> hands over one sample per instance
  (\<open>sample_action_length\<close>).
\<close>

theorem evaluate_pairs_columns_by_position:
  "evaluate_action_lists
     (ActionModel_init h \<lparr> continuous_action_size = 2, discrete_action_branches = [3] \<rparr> cs ts)
     (Tensor [2, 3] [a0, a1, a2, b0, b1, b2])
     = Inr [Tensor [2] [a0, b0], Tensor [2] [a1, b1], Tensor [2] [a2, b2]]
   \<and> get_dists
     (ActionModel_init h \<lparr> continuous_action_size = 2, discrete_action_branches = [3] \<rparr> cs ts)
     inputs masks
     = [GaussianDistInstance (GaussianDistribution h 2 cs ts) inputs,
        CategoricalDistInstance (MultiCategoricalDistribution h [3]) 0 inputs masks]
   \<and> evaluate ops
     (ActionModel_init h \<lparr> continuous_action_size = 2, discrete_action_branches = [3] \<rparr> cs ts)
     inputs masks (Tensor [2, 3] [a0, a1, a2, b0, b1, b2])
     = (case tensor_add
              (log_prob ops (GaussianDistInstance (GaussianDistribution h 2 cs ts) inputs)
                 (Tensor [2] [a0, b0]))
              (log_prob ops
                 (CategoricalDistInstance (MultiCategoricalDistribution h [3]) 0 inputs masks)
                 (Tensor [2] [a1, b1])) of
          Inl e \<Rightarrow> Inl e
        | Inr log_probs \<Rightarrow>
            (case tensor_add
                    (entropy ops (GaussianDistInstance (GaussianDistribution h 2 cs ts) inputs))
                    (entropy ops
                       (CategoricalDistInstance (MultiCategoricalDistribution h [3]) 0 inputs masks)) of
               Inl e \<Rightarrow> Inl e
             | Inr entropies \<Rightarrow> Inr (log_probs, entropies)))"
proof -
  let ?m = "ActionModel_init h \<lparr> continuous_action_size = 2, discrete_action_branches = [3] \<rparr> cs ts"
  have upt2: "[0..<2] = [0, Suc 0]"
    by (simp add: numeral_2_eq_2)
  have cols: "evaluate_action_lists ?m (Tensor [2, 3] [a0, a1, a2, b0, b1, b2])
      = Inr [Tensor [2] [a0, b0], Tensor [2] [a1, b1], Tensor [2] [a2, b2]]"
    by (simp add: evaluate_action_lists_def init_split_list torch_split_def narrow_def
        last_axis_columns_def select_last_def upt2)
  have dists: "get_dists ?m inputs masks
      = [GaussianDistInstance (GaussianDistribution h 2 cs ts) inputs,
         CategoricalDistInstance (MultiCategoricalDistribution h [3]) 0 inputs masks]"
    by (simp add: get_dists_init)
  show ?thesis
    by (simp add: cols dists evaluate_def get_probs_and_entropy_def split: sum.splits)
qed

section \<open>get\_action\_out\<close>

text \<open>
  Claim C3, as amended. When the module yields fewer than two instances, that is with
  no discrete branch, or with no continuous dimension and at most one branch,
  \<open>get_action_out\<close> fails on \<^verbatim>\<open>dists[0]\<close> or on \<^verbatim>\<open>dists[1]\<close> with an index error and
  returns no tuple.
\<close>

theorem export_fails_below_two_instances:
  assumes "discrete_action_branches spec = []
           \<or> (continuous_action_size spec \<le> 0 \<and> length (discrete_action_branches spec) \<le> 1)"
  shows "get_action_out ops (ActionModel_init h spec cs ts) inputs masks = Inl IndexError"
proof -
  have "length (get_dists (ActionModel_init h spec cs ts) inputs masks) < 2"
    using assms by (auto simp: get_dists_init_length)
  then show ?thesis
    by (auto simp: get_action_out_def Let_def list_index_def)
qed

theorem export_fails_below_two_instances_witness:
  "get_action_out demo_ops
     (ActionModel_init 8 \<lparr> continuous_action_size = 3, discrete_action_branches = [] \<rparr> False False)
     (Tensor [1, 8] (replicate 8 0)) (Tensor [1, 0] []) = Inl IndexError
   \<and> get_action_out demo_ops
     (ActionModel_init 8 \<lparr> continuous_action_size = 0, discrete_action_branches = [4] \<rparr> False False)
     (Tensor [1, 8] (replicate 8 0)) (Tensor [1, 4] [1, 1, 1, 1]) = Inl IndexError"
  using export_fails_below_two_instances
    [of "\<lparr> continuous_action_size = 3, discrete_action_branches = [] \<rparr>" demo_ops 8 False False]
    export_fails_below_two_instances
    [of "\<lparr> continuous_action_size = 0, discrete_action_branches = [4] \<rparr>" demo_ops 8 False False]
  by simp

text \<open>
  Claim C3 as stated fails where the continuous family is absent and there are two
  branches: the module yields two instances, both indices are in range, and
  \<open>get_action_out\<close> returns a tuple.
\<close>

theorem export_two_branches_counterexample:
  "continuous_action_size \<lparr> continuous_action_size = 0, discrete_action_branches = [2, 3] \<rparr> = 0
   \<and> get_action_out demo_ops
     (ActionModel_init 8 \<lparr> continuous_action_size = 0, discrete_action_branches = [2, 3] \<rparr> False False)
     (Tensor [1, 8] (replicate 8 0)) (Tensor [1, 5] [1, 1, 1, 1, 1])
   = Inr (Tensor [1, 1] [0], Tensor [1, 1] [1], Tensor [1, 2] [0, 1])"
  by (simp add: get_action_out_def get_dists_init list_index_def demo_ops_def batch_of_def
      torch_cat_def cat_compatible_def dim1_def numeral_2_eq_2)

text \<open>
  Claim C2, at one continuous dimension and two branches. The second component of the
  tuple is \<^verbatim>\<open>dists[1]\<close>: the exported form of the first branch alone. The second
  branch appears in the concatenation only.
\<close>

theorem export_second_slot_is_first_branch:
  "get_action_out ops
     (ActionModel_init h \<lparr> continuous_action_size = 1, discrete_action_branches = [2, 3] \<rparr> cs ts)
     inputs masks
   = (case torch_cat
         [exported_model_output ops (GaussianDistInstance (GaussianDistribution h 1 cs ts) inputs),
          exported_model_output ops
            (CategoricalDistInstance (MultiCategoricalDistribution h [2, 3]) 0 inputs masks),
          exported_model_output ops
            (CategoricalDistInstance (MultiCategoricalDistribution h [2, 3]) 1 inputs masks)] of
        Inl e \<Rightarrow> Inl e
      | Inr combined \<Rightarrow>
          Inr (exported_model_output ops (GaussianDistInstance (GaussianDistribution h 1 cs ts) inputs),
               exported_model_output ops
                 (CategoricalDistInstance (MultiCategoricalDistribution h [2, 3]) 0 inputs masks),
               combined))"
  by (simp add: get_action_out_def get_dists_init list_index_def numeral_2_eq_2
      split: sum.splits)

text \<open>
  Claim C4, at no continuous dimension and branches of sizes 2 and 3. The split plan
  is \<open>[1, 1]\<close>, of total width 2, and the combined export is the concatenation of the
  exported forms of the two branches. The first component of the tuple, the place of
  the continuous export, is not empty: it is \<^verbatim>\<open>dists[0]\<close>, the exported form of the
  first branch.
\<close>

theorem export_without_continuous_fills_first_slot:
  "split_list
     (ActionModel_init h \<lparr> continuous_action_size = 0, discrete_action_branches = [2, 3] \<rparr> cs ts)
     = [1, 1]
   \<and> sum_list (split_list
     (ActionModel_init h \<lparr> continuous_action_size = 0, discrete_action_branches = [2, 3] \<rparr> cs ts))
     = 2
   \<and> get_action_out ops
     (ActionModel_init h \<lparr> continuous_action_size = 0, discrete_action_branches = [2, 3] \<rparr> cs ts)
     inputs masks
   = (case torch_cat
         [exported_model_output ops
            (CategoricalDistInstance (MultiCategoricalDistribution h [2, 3]) 0 inputs masks),
          exported_model_output ops
            (CategoricalDistInstance (MultiCategoricalDistribution h [2, 3]) 1 inputs masks)] of
        Inl e \<Rightarrow> Inl e
      | Inr combined \<Rightarrow>
          Inr (exported_model_output ops
                 (CategoricalDistInstance (MultiCategoricalDistribution h [2, 3]) 0 inputs masks),
               exported_model_output ops
                 (CategoricalDistInstance (MultiCategoricalDistribution h [2, 3]) 1 inputs masks),
               combined))"
  by (simp add: init_split_list get_action_out_def get_dists_init list_index_def numeral_2_eq_2
      split: sum.splits)

end
